theory Spec2Isabelle
  imports Main
begin

section \<open>JavaScript values held by the form\<close>

text \<open>
  The form page keeps its answers in objects of type \<^verbatim>\<open>Record<string, any>\<close>. The values
  that occur are the primitives, arrays (checkbox groups), date objects (the date picker)
  and, in server responses, nested objects. Numbers are taken to be integers; the only
  property of a number the page looks at is whether it is zero. \<open>JDate d\<close> is a date object
  whose \<^verbatim>\<open>toJSON\<close> gives the string \<open>d\<close>; like every object it is truthy and is not equal
  to any string.
\<close>

datatype jsval =
    JUndefined
  | JNull
  | JBool bool
  | JNum int
  | JStr string
  | JArr "jsval list"
  | JDate string
  | JObj "(string \<times> jsval) list"

text \<open>An object literal: its keys in insertion order. A key that is absent reads as
  \<^verbatim>\<open>undefined\<close>.\<close>

type_synonym jsrecord = "(string \<times> jsval) list"

definition getProp :: "jsrecord \<Rightarrow> string \<Rightarrow> jsval" where
  "getProp r k = (case map_of r k of None \<Rightarrow> JUndefined | Some v \<Rightarrow> v)"

text \<open>JavaScript truthiness, as tested by \<^verbatim>\<open>!x\<close>, \<^verbatim>\<open>x && y\<close> and \<^verbatim>\<open>x || y\<close>.\<close>

fun truthy :: "jsval \<Rightarrow> bool" where
  "truthy JUndefined = False"
| "truthy JNull = False"
| "truthy (JBool b) = b"
| "truthy (JNum n) = (n \<noteq> 0)"
| "truthy (JStr s) = (s \<noteq> [])"
| "truthy (JArr xs) = True"
| "truthy (JDate d) = True"
| "truthy (JObj kvs) = True"

section \<open>JSON.stringify and JSON.parse\<close>

text \<open>
  Drafts go through \<^verbatim>\<open>JSON.stringify\<close> and \<^verbatim>\<open>JSON.parse\<close>. Both are modelled on text, for
  strings of one-byte characters and integer numbers. \<^verbatim>\<open>stringify\<close> follows the serialisation
  of the language: \<^verbatim>\<open>undefined\<close> has no text (it is left out of an object and written
  \<^verbatim>\<open>null\<close> in an array), a date object is written as the string its \<^verbatim>\<open>toJSON\<close> gives, and a
  string is quoted with the escapes \<^verbatim>\<open>\" \\ \b \f \n \r \t\<close> and \<^verbatim>\<open>\u00XX\<close> for the other control
  characters.
\<close>

definition dquote :: char where "dquote = CHR 0x22"
definition bslash :: char where "bslash = CHR 0x5C"

definition hexDigit :: "nat \<Rightarrow> char" where
  "hexDigit d = (if d < 10 then char_of (48 + d) else char_of (87 + d))"

definition hexValue :: "char \<Rightarrow> nat option" where
  "hexValue c =
     (let k = (of_char c :: nat) in
      if 48 \<le> k \<and> k \<le> 57 then Some (k - 48)
      else if 97 \<le> k \<and> k \<le> 102 then Some (k - 87)
      else if 65 \<le> k \<and> k \<le> 70 then Some (k - 55)
      else None)"

definition quoteChar :: "char \<Rightarrow> string" where
  "quoteChar c =
     (if c = dquote then [bslash, dquote]
      else if c = bslash then [bslash, bslash]
      else if c = CHR 0x08 then [bslash, CHR ''b'']
      else if c = CHR 0x0C then [bslash, CHR ''f'']
      else if c = CHR 0x0A then [bslash, CHR ''n'']
      else if c = CHR 0x0D then [bslash, CHR ''r'']
      else if c = CHR 0x09 then [bslash, CHR ''t'']
      else if (of_char c :: nat) < 32 then
        [bslash, CHR ''u'', CHR ''0'', CHR ''0'',
         hexDigit ((of_char c :: nat) div 16), hexDigit ((of_char c :: nat) mod 16)]
      else [c])"

definition quoteJSONString :: "string \<Rightarrow> string" where
  "quoteJSONString s = dquote # concat (map quoteChar s) @ [dquote]"

fun showNat :: "nat \<Rightarrow> string" where
  "showNat n = (if n < 10 then [char_of (48 + n)] else showNat (n div 10) @ [char_of (48 + n mod 10)])"

declare showNat.simps [simp del]

definition showInt :: "int \<Rightarrow> string" where
  "showInt i = (if i < 0 then CHR ''-'' # showNat (nat (- i)) else showNat (nat i))"

fun joinWith :: "string \<Rightarrow> string list \<Rightarrow> string" where
  "joinWith sep [] = []"
| "joinWith sep [x] = x"
| "joinWith sep (x # y # ys) = x @ sep @ joinWith sep (y # ys)"

fun stringify :: "jsval \<Rightarrow> string option"
  and stringifyElements :: "jsval list \<Rightarrow> string list"
  and stringifyMembers :: "(string \<times> jsval) list \<Rightarrow> string list"
where
  "stringify JUndefined = None"
| "stringify JNull = Some ''null''"
| "stringify (JBool b) = Some (if b then ''true'' else ''false'')"
| "stringify (JNum n) = Some (showInt n)"
| "stringify (JStr s) = Some (quoteJSONString s)"
| "stringify (JDate d) = Some (quoteJSONString d)"
| "stringify (JArr xs) = Some (''['' @ joinWith '','' (stringifyElements xs) @ '']'')"
| "stringify (JObj kvs) = Some (''{'' @ joinWith '','' (stringifyMembers kvs) @ ''}'')"
| "stringifyElements [] = []"
| "stringifyElements (x # xs) =
     (case stringify x of None \<Rightarrow> ''null'' | Some s \<Rightarrow> s) # stringifyElements xs"
| "stringifyMembers [] = []"
| "stringifyMembers ((k, v) # kvs) =
     (case stringify v of
        None \<Rightarrow> stringifyMembers kvs
      | Some s \<Rightarrow> (quoteJSONString k @ '':'' @ s) # stringifyMembers kvs)"


text \<open>
  The parser reads the JSON grammar: insignificant whitespace, the three literals, integers
  without a leading zero, strings with their escapes, arrays and objects. A repeated key of
  an object keeps its first position and its last value. The recursion is bounded by the
  length of the text; a text that is not of the grammar (or not of the fragment modelled)
  gives \<open>None\<close>, where \<^verbatim>\<open>JSON.parse\<close> throws.
\<close>

definition isWhitespace :: "char \<Rightarrow> bool" where
  "isWhitespace c = (c = CHR '' '' \<or> c = CHR 0x09 \<or> c = CHR 0x0A \<or> c = CHR 0x0D)"

definition skipWhitespace :: "string \<Rightarrow> string" where
  "skipWhitespace cs = dropWhile isWhitespace cs"

definition isDigit :: "char \<Rightarrow> bool" where
  "isDigit c = (48 \<le> (of_char c :: nat) \<and> (of_char c :: nat) \<le> 57)"

definition digitValue :: "char \<Rightarrow> nat" where
  "digitValue c = (of_char c :: nat) - 48"

fun stripPrefix :: "string \<Rightarrow> string \<Rightarrow> string option" where
  "stripPrefix [] cs = Some cs"
| "stripPrefix (p # ps) [] = None"
| "stripPrefix (p # ps) (c # cs) = (if p = c then stripPrefix ps cs else None)"

definition parseDigits :: "string \<Rightarrow> (nat \<times> string) option" where
  "parseDigits cs =
     (let ds = takeWhile isDigit cs; r = dropWhile isDigit cs in
      if ds = [] then None
      else if hd ds = CHR ''0'' \<and> length ds > 1 then None
      else Some (foldl (\<lambda>a c. 10 * a + digitValue c) 0 ds, r))"

definition parseNumber :: "string \<Rightarrow> (jsval \<times> string) option" where
  "parseNumber cs =
     (case cs of
        [] \<Rightarrow> None
      | c # r \<Rightarrow>
          if c = CHR ''-'' then map_option (\<lambda>(n, r'). (JNum (- int n), r')) (parseDigits r)
          else map_option (\<lambda>(n, r'). (JNum (int n), r')) (parseDigits cs))"

definition unescape :: "char \<Rightarrow> char option" where
  "unescape e =
     (if e = dquote then Some dquote
      else if e = bslash then Some bslash
      else if e = CHR ''/'' then Some CHR ''/''
      else if e = CHR ''b'' then Some (CHR 0x08)
      else if e = CHR ''f'' then Some (CHR 0x0C)
      else if e = CHR ''n'' then Some (CHR 0x0A)
      else if e = CHR ''r'' then Some (CHR 0x0D)
      else if e = CHR ''t'' then Some (CHR 0x09)
      else None)"

definition consTo :: "'a \<Rightarrow> ('a list \<times> string) option \<Rightarrow> ('a list \<times> string) option" where
  "consTo x res = (case res of None \<Rightarrow> None | Some (xs, r) \<Rightarrow> Some (x # xs, r))"

fun parseString :: "string \<Rightarrow> (string \<times> string) option" where
  "parseString [] = None"
| "parseString (c # cs) =
     (if c = dquote then Some ([], cs)
      else if c = bslash then
        (case cs of
           [] \<Rightarrow> None
         | e # r \<Rightarrow>
             if e = CHR ''u'' then
               (case r of
                  h1 # h2 # h3 # h4 # r' \<Rightarrow>
                    (case (hexValue h1, hexValue h2, hexValue h3, hexValue h4) of
                       (Some a, Some b, Some c', Some d) \<Rightarrow>
                         (let code = ((a * 16 + b) * 16 + c') * 16 + d in
                          if code < 256 then consTo (char_of code) (parseString r') else None)
                     | _ \<Rightarrow> None)
                | _ \<Rightarrow> None)
             else
               (case unescape e of
                  None \<Rightarrow> None
                | Some ch \<Rightarrow> consTo ch (parseString r)))
      else if (of_char c :: nat) < 32 then None
      else consTo c (parseString cs))"

fun setMember :: "string \<Rightarrow> jsval \<Rightarrow> jsrecord \<Rightarrow> jsrecord" where
  "setMember k v [] = [(k, v)]"
| "setMember k v ((k', v') # kvs) =
     (if k = k' then (k, v) # kvs else (k', v') # setMember k v kvs)"

definition objectOf :: "(string \<times> jsval) list \<Rightarrow> jsval" where
  "objectOf members = JObj (foldl (\<lambda>acc (k, v). setMember k v acc) [] members)"

fun parseValue :: "nat \<Rightarrow> string \<Rightarrow> (jsval \<times> string) option"
  and parseElements :: "nat \<Rightarrow> string \<Rightarrow> (jsval list \<times> string) option"
  and parseMembers :: "nat \<Rightarrow> string \<Rightarrow> ((string \<times> jsval) list \<times> string) option"
where
  "parseValue 0 cs = None"
| "parseValue (Suc n) cs =
     (case skipWhitespace cs of
        [] \<Rightarrow> None
      | c # r \<Rightarrow>
          if c = CHR ''['' then
            (case skipWhitespace r of
               [] \<Rightarrow> None
             | c' # r' \<Rightarrow>
                 if c' = CHR '']'' then Some (JArr [], r')
                 else (case parseElements n (c' # r') of
                         None \<Rightarrow> None
                       | Some (vs, r'') \<Rightarrow> Some (JArr vs, r'')))
          else if c = CHR ''{'' then
            (case skipWhitespace r of
               [] \<Rightarrow> None
             | c' # r' \<Rightarrow>
                 if c' = CHR ''}'' then Some (JObj [], r')
                 else (case parseMembers n (c' # r') of
                         None \<Rightarrow> None
                       | Some (ms, r'') \<Rightarrow> Some (objectOf ms, r'')))
          else if c = dquote then
            (case parseString r of None \<Rightarrow> None | Some (s, r') \<Rightarrow> Some (JStr s, r'))
          else if c = CHR ''-'' \<or> isDigit c then parseNumber (c # r)
          else
            (case stripPrefix ''null'' (c # r) of
               Some r' \<Rightarrow> Some (JNull, r')
             | None \<Rightarrow>
                 (case stripPrefix ''true'' (c # r) of
                    Some r' \<Rightarrow> Some (JBool True, r')
                  | None \<Rightarrow>
                      (case stripPrefix ''false'' (c # r) of
                         Some r' \<Rightarrow> Some (JBool False, r')
                       | None \<Rightarrow> None))))"
| "parseElements 0 cs = None"
| "parseElements (Suc n) cs =
     (case parseValue n cs of
        None \<Rightarrow> None
      | Some (v, r) \<Rightarrow>
          (case skipWhitespace r of
             [] \<Rightarrow> None
           | c # r' \<Rightarrow>
               if c = CHR '','' then consTo v (parseElements n r')
               else if c = CHR '']'' then Some ([v], r')
               else None))"
| "parseMembers 0 cs = None"
| "parseMembers (Suc n) cs =
     (case skipWhitespace cs of
        [] \<Rightarrow> None
      | c # r \<Rightarrow>
          if c \<noteq> dquote then None
          else
            (case parseString r of
               None \<Rightarrow> None
             | Some (k, r1) \<Rightarrow>
                 (case skipWhitespace r1 of
                    [] \<Rightarrow> None
                  | c1 # r2 \<Rightarrow>
                      if c1 \<noteq> CHR '':'' then None
                      else
                        (case parseValue n r2 of
                           None \<Rightarrow> None
                         | Some (v, r3) \<Rightarrow>
                             (case skipWhitespace r3 of
                                [] \<Rightarrow> None
                              | c3 # r4 \<Rightarrow>
                                  if c3 = CHR '','' then consTo (k, v) (parseMembers n r4)
                                  else if c3 = CHR ''}'' then Some ([(k, v)], r4)
                                  else None)))))"

definition JSON_parse :: "string \<Rightarrow> jsval option" where
  "JSON_parse s =
     (case parseValue (Suc (length s)) s of
        None \<Rightarrow> None
      | Some (v, r) \<Rightarrow> if skipWhitespace r = [] then Some v else None)"

definition JSON_stringify :: "jsval \<Rightarrow> string option" where
  "JSON_stringify v = stringify v"

section \<open>The form schema (types/formTypes.ts)\<close>

text \<open>
  Field names carry a prefix because several interfaces of the source share the names
  \<^verbatim>\<open>id\<close>, \<^verbatim>\<open>label\<close>, \<^verbatim>\<open>type\<close>, \<^verbatim>\<open>fields\<close> and \<^verbatim>\<open>dependsOn\<close>. An optional property is an
  \<open>option\<close>. The \<^verbatim>\<open>type\<close> and \<^verbatim>\<open>condition\<close> tags are kept as the strings the server sends,
  so that values outside the declared unions can be written down.
\<close>

record DynamicOptions =
  dyn_dependsOn :: string
  dyn_endpoint :: string
  dyn_method :: string

record Visibility =
  vis_dependsOn :: string
  vis_condition :: string
  vis_value :: string

record Validation =
  val_min :: "int option"
  val_max :: "int option"
  val_pattern :: "string option"

record SimpleField =
  sf_id :: string
  sf_label :: string
  sf_type :: string
  sf_required :: "bool option"
  sf_options :: "string list option"
  sf_dynamicOptions :: "DynamicOptions option"
  sf_visibility :: "Visibility option"
  sf_validation :: "Validation option"

record GroupField =
  gf_id :: string
  gf_label :: string
  gf_fields :: "SimpleField list"

text \<open>The union \<^verbatim>\<open>FieldItem = SimpleField | GroupField\<close> is tagged by \<^verbatim>\<open>type === "group"\<close>;
  the constructor is that tag.\<close>

datatype FieldItem = Simple SimpleField | Group GroupField

record FormStructure =
  formId :: string
  title :: string
  form_fields :: "FieldItem list"

fun isGroup :: "FieldItem \<Rightarrow> bool" where
  "isGroup (Group g) = True"
| "isGroup (Simple f) = False"

fun item_id :: "FieldItem \<Rightarrow> string" where
  "item_id (Simple f) = sf_id f"
| "item_id (Group g) = gf_id g"

section \<open>Visibility (shouldShowField)\<close>

text \<open>
  \<^verbatim>\<open>dependsValue === field.visibility.value\<close> compares with a string, so it holds exactly when
  the dependency value is that very string: \<open>dependsValue = JStr value\<close>.
\<close>

definition shouldShowField :: "SimpleField \<Rightarrow> jsrecord \<Rightarrow> bool" where
  "shouldShowField field values =
     (case sf_visibility field of
        None \<Rightarrow> True
      | Some vis \<Rightarrow>
          (let dependsValue = getProp values (vis_dependsOn vis) in
           if vis_condition vis = ''equals'' then dependsValue = JStr (vis_value vis)
           else if vis_condition vis = ''not_equals'' then dependsValue \<noteq> JStr (vis_value vis)
           else True))"

section \<open>The field renderer (FieldRenderer)\<close>

text \<open>
  What \<^verbatim>\<open>FieldRenderer\<close> returns: \<open>None\<close> for \<^verbatim>\<open>null\<close>, otherwise the \<^verbatim>\<open>Form.Item\<close> with its
  name, label, rules and the control inside. A select carries the label of its placeholder
  option and the values of the options after it. \<open>t\<close> is the translation function.
\<close>

datatype rule = Required string

datatype control =
    Input
  | InputNumber "int option" "int option"
  | DatePicker
  | Select string "jsval list"
  | RadioGroup "string list"
  | CheckboxGroup "string list"

record FormItem =
  fi_name :: string
  fi_label :: string
  fi_rules :: "rule list"
  fi_valuePropName :: "string option"
  fi_control :: control

text \<open>\<^verbatim>\<open>field.options || []\<close>: an array is truthy even when empty, so only a missing
  property falls through to the default.\<close>

definition optionsOrEmpty :: "SimpleField \<Rightarrow> string list" where
  "optionsOrEmpty field = (case sf_options field of None \<Rightarrow> [] | Some os \<Rightarrow> os)"

definition FieldRenderer ::
  "(string \<Rightarrow> string) \<Rightarrow> SimpleField \<Rightarrow> jsrecord \<Rightarrow> (string \<rightharpoonup> jsval list) \<Rightarrow> FormItem option"
where
  "FieldRenderer t field vals dynOpts =
     (let rules = (if sf_required field = Some True then [Required (t ''required'')] else []);
          item = (\<lambda>c. Some \<lparr>fi_name = sf_id field, fi_label = sf_label field, fi_rules = rules,
                              fi_valuePropName = None, fi_control = c\<rparr>)
      in
      if sf_id field = ''country'' then
        Some \<lparr>fi_name = ''country'', fi_label = t ''country'', fi_rules = rules,
              fi_valuePropName = None,
              fi_control = Select (t ''selectAnOption'') (map JStr (optionsOrEmpty field))\<rparr>
      else if sf_id field = ''state'' then
        (if \<not> truthy (getProp vals ''country'') then None
         else
           Some \<lparr>fi_name = ''state'', fi_label = t ''state'', fi_rules = rules,
                 fi_valuePropName = None,
                 fi_control = Select (t ''selectAnOption'')
                   (case dynOpts ''state'' of
                      Some ds \<Rightarrow> ds
                    | None \<Rightarrow> map JStr (optionsOrEmpty field))\<rparr>)
      else if sf_type field = ''text'' then item Input
      else if sf_type field = ''number'' then
        item (InputNumber (Option.bind (sf_validation field) val_min)
                          (Option.bind (sf_validation field) val_max))
      else if sf_type field = ''date'' then item DatePicker
      else if sf_type field = ''select'' then
        item (Select (t ''selectAnOption'') (map JStr (optionsOrEmpty field)))
      else if sf_type field = ''radio'' then item (RadioGroup (optionsOrEmpty field))
      else if sf_type field = ''checkbox'' then
        Some \<lparr>fi_name = sf_id field, fi_label = sf_label field, fi_rules = rules,
              fi_valuePropName = Some ''checked'',
              fi_control = CheckboxGroup (optionsOrEmpty field)\<rparr>
      else None)"

section \<open>The page component (DynamicFormPage)\<close>

text \<open>
  The state of the component: its \<^verbatim>\<open>useState\<close> cells (\<open>selectedForm\<close>, \<open>dynamicOptions\<close>,
  \<open>submitting\<close>), the form instance (\<open>form_store\<close>: the values that \<^verbatim>\<open>setFieldsValue\<close> writes,
  \<^verbatim>\<open>resetFields\<close> clears and \<^verbatim>\<open>getFieldsValue\<close> reads; \<open>form_errors\<close>: the errors that
  \<^verbatim>\<open>setFields\<close> writes), the snapshot \<open>formValues\<close> that \<^verbatim>\<open>Form.useWatch([], form)\<close> handed to
  the current render, and the browser's \<open>localStorage\<close>. The handlers of a render read
  \<open>formValues\<close> and cannot change it; \<^verbatim>\<open>FieldRenderer\<close> reads the form instance. The snapshot
  is an object whenever a form is rendered. Calls to collaborators outside the component
  (network, notifications, navigation, console) are appended to \<open>effects\<close> in the order they
  are made.
\<close>

datatype effect =
    GetStates jsval
  | PostSubmit jsrecord
  | MessageSuccess string
  | MessageError string
  | Navigate string
  | ConsoleError string

record page_state =
  selectedForm :: "FormStructure option"
  form_store :: jsrecord
  form_errors :: "string \<rightharpoonup> string list"
  formValues :: jsrecord
  dynamicOptions :: "string \<rightharpoonup> jsval list"
  submitting :: bool
  localStorage :: "string \<rightharpoonup> string"
  effects :: "effect list"

text \<open>An \<^verbatim>\<open>async\<close> handler either runs to its end or stops at an \<^verbatim>\<open>await\<close> on a network
  call; \<open>Await c s\<close> holds what the continuation captured and the state left behind.\<close>

datatype 'c step = Done page_state | Await 'c page_state

datatype 'a outcome = Resolved 'a | Rejected

subsection \<open>Rendering the items of the selected form\<close>

datatype content =
    GroupBox string "(string \<times> FormItem option) list"
  | FieldBox "FormItem option"

datatype element = SortableItem string content

definition renderItem :: "(string \<Rightarrow> string) \<Rightarrow> page_state \<Rightarrow> FieldItem \<Rightarrow> element option" where
  "renderItem t st item =
     (case item of
        Group g \<Rightarrow>
          (let visibleSubFields = filter (\<lambda>f. shouldShowField f (formValues st)) (gf_fields g) in
           if length visibleSubFields = 0 then None
           else Some (SortableItem (gf_id g)
                  (GroupBox (gf_label g)
                     (map (\<lambda>subField.
                             (sf_id subField,
                              FieldRenderer t subField (form_store st) (dynamicOptions st)))
                          visibleSubFields))))
      | Simple f \<Rightarrow>
          if \<not> shouldShowField f (formValues st) then None
          else Some (SortableItem (sf_id f)
                 (FieldBox (FieldRenderer t f (form_store st) (dynamicOptions st)))))"

definition renderFields :: "(string \<Rightarrow> string) \<Rightarrow> page_state \<Rightarrow> element option list" where
  "renderFields t st =
     (case selectedForm st of
        None \<Rightarrow> []
      | Some sf \<Rightarrow> map (renderItem t st) (form_fields sf))"

subsection \<open>Reordering (handleDragEnd)\<close>

record DragEndEvent =
  active_id :: string
  over_id :: "string option"

text \<open>\<^verbatim>\<open>Array.prototype.findIndex\<close>: the first index whose element satisfies the predicate,
  \<open>-1\<close> when there is none.\<close>

fun findIndex :: "('a \<Rightarrow> bool) \<Rightarrow> 'a list \<Rightarrow> int" where
  "findIndex P [] = -1"
| "findIndex P (x # xs) =
     (if P x then 0 else (let i = findIndex P xs in if i < 0 then -1 else i + 1))"

text \<open>
  \<^verbatim>\<open>arrayMove\<close> of the drag-and-drop library copies the array, splices the element at \<open>from\<close>
  out and splices it back in at \<open>to\<close>. \<^verbatim>\<open>handleDragEnd\<close> calls it with two indices that
  \<^verbatim>\<open>findIndex\<close> found, so \<open>from\<close> is in range; were it not, the library would insert
  \<^verbatim>\<open>undefined\<close>, which a list of items cannot hold, and the model returns the copy as it is.
\<close>

definition arrayMove :: "'a list \<Rightarrow> nat \<Rightarrow> nat \<Rightarrow> 'a list" where
  "arrayMove array from to =
     (case drop from array of
        [] \<Rightarrow> array
      | x # after \<Rightarrow>
          (let newArray = take from array @ after
           in take to newArray @ x # drop to newArray))"

definition handleDragEnd :: "DragEndEvent \<Rightarrow> page_state \<Rightarrow> page_state" where
  "handleDragEnd event st =
     (case over_id event of
        None \<Rightarrow> st
      | Some over \<Rightarrow>
          (case selectedForm st of
             None \<Rightarrow> st
           | Some sf \<Rightarrow>
               if active_id event = over then st
               else
                 (let oldIndex = findIndex (\<lambda>f. item_id f = active_id event) (form_fields sf);
                      newIndex = findIndex (\<lambda>f. item_id f = over) (form_fields sf)
                  in if oldIndex < 0 \<or> newIndex < 0 then st
                     else st\<lparr>selectedForm :=
                            Some (sf\<lparr>form_fields :=
                              arrayMove (form_fields sf) (nat oldIndex) (nat newIndex)\<rparr>)\<rparr>)))"

subsection \<open>Submission (onFinish)\<close>

definition allSimpleFields :: "FormStructure \<Rightarrow> SimpleField list" where
  "allSimpleFields sf =
     concat (map (\<lambda>item. case item of Group g \<Rightarrow> gf_fields g | Simple f \<Rightarrow> [f])
                 (form_fields sf))"

text \<open>The ids pushed to \<^verbatim>\<open>missing\<close>: required, shown, and \<^verbatim>\<open>!formValues[fld.id]\<close>.\<close>

definition missingFields :: "FormStructure \<Rightarrow> jsrecord \<Rightarrow> string list" where
  "missingFields sf vals =
     map sf_id
       (filter (\<lambda>fld. sf_required fld = Some True \<and> shouldShowField fld vals \<and>
                       \<not> truthy (getProp vals (sf_id fld)))
               (allSimpleFields sf))"

text \<open>\<^verbatim>\<open>form.setFields([{ name: mf, errors: [msg] }])\<close> for every missing id in turn.\<close>

fun setFieldErrors :: "string \<Rightarrow> string list \<Rightarrow> (string \<rightharpoonup> string list) \<Rightarrow> (string \<rightharpoonup> string list)" where
  "setFieldErrors msg [] errs = errs"
| "setFieldErrors msg (mf # rest) errs = setFieldErrors msg rest (errs(mf \<mapsto> [msg]))"

text \<open>
  \<^verbatim>\<open>onFinish\<close> up to its \<^verbatim>\<open>await\<close>: it returns early without a selected form or with missing
  fields; otherwise it sets \<^verbatim>\<open>submitting\<close>, posts \<open>values\<close> and waits.
\<close>

definition onFinish :: "(string \<Rightarrow> string) \<Rightarrow> jsrecord \<Rightarrow> page_state \<Rightarrow> unit step" where
  "onFinish t values st =
     (case selectedForm st of
        None \<Rightarrow> Done st
      | Some sf \<Rightarrow>
          (let missing = missingFields sf (formValues st) in
           if length missing > 0 then
             Done (st\<lparr>form_errors := setFieldErrors (t ''required'') missing (form_errors st)\<rparr>)
           else
             Await () (st\<lparr>submitting := True, effects := effects st @ [PostSubmit values]\<rparr>)))"



subsection \<open>Loading the state options (handleCountryChange)\<close>

text \<open>
  The \<^verbatim>\<open>try\<close> body of \<^verbatim>\<open>handleCountryChange\<close> after the request has settled: a rejected
  request throws at the \<^verbatim>\<open>await\<close>, and \<^verbatim>\<open>res.data.states\<close> throws a \<^verbatim>\<open>TypeError\<close> when the body
  \<^verbatim>\<open>res.data\<close> is \<^verbatim>\<open>undefined\<close> or \<^verbatim>\<open>null\<close>. Reading a property that a value does not have
  gives \<^verbatim>\<open>undefined\<close>.
\<close>

datatype js_error = RequestFailed | TypeError

definition readStates :: "jsval outcome \<Rightarrow> js_error + jsval" where
  "readStates res =
     (case res of
        Rejected \<Rightarrow> Inl RequestFailed
      | Resolved d \<Rightarrow>
          (case d of
             JUndefined \<Rightarrow> Inl TypeError
           | JNull \<Rightarrow> Inl TypeError
           | JObj kvs \<Rightarrow> Inr (getProp kvs ''states'')
           | _ \<Rightarrow> Inr JUndefined))"

text \<open>The list the handler stores under \<^verbatim>\<open>state\<close>: the array of the response when
  \<^verbatim>\<open>Array.isArray\<close> holds, the empty list in the \<^verbatim>\<open>else\<close> branch and in the \<^verbatim>\<open>catch\<close>.\<close>

definition statesOf :: "jsval outcome \<Rightarrow> jsval list" where
  "statesOf res =
     (case readStates res of
        Inl e \<Rightarrow> []
      | Inr states \<Rightarrow> (case states of JArr xs \<Rightarrow> xs | _ \<Rightarrow> []))"

definition handleCountryChange :: "jsval \<Rightarrow> page_state \<Rightarrow> unit step" where
  "handleCountryChange val st =
     (if \<not> truthy val then
        Done (st\<lparr>dynamicOptions := (dynamicOptions st)(''state'' \<mapsto> [])\<rparr>)
      else Await () (st\<lparr>effects := effects st @ [GetStates val]\<rparr>))"

definition handleCountryChange_resume :: "jsval outcome \<Rightarrow> page_state \<Rightarrow> page_state" where
  "handleCountryChange_resume res st =
     st\<lparr>dynamicOptions := (dynamicOptions st)(''state'' \<mapsto> statesOf res)\<rparr>"

subsection \<open>Drafts (onValuesChange and the restoring effect)\<close>

text \<open>\<^verbatim>\<open>localStorage.setItem(`draft_${selectedForm.formId}`, JSON.stringify(allValues))\<close>,
  guarded by \<^verbatim>\<open>if (selectedForm)\<close>. \<^verbatim>\<open>setItem\<close> turns its argument into a string.\<close>

definition draftKey :: "FormStructure \<Rightarrow> string" where
  "draftKey sf = ''draft_'' @ formId sf"

definition saveDraft :: "FormStructure option \<Rightarrow> jsrecord \<Rightarrow> page_state \<Rightarrow> page_state" where
  "saveDraft sel allValues st =
     (case sel of
        None \<Rightarrow> st
      | Some sf \<Rightarrow>
          st\<lparr>localStorage := (localStorage st)
                (draftKey sf \<mapsto>
                   (case JSON_stringify (JObj allValues) of
                      None \<Rightarrow> ''undefined''
                    | Some s \<Rightarrow> s))\<rparr>)"

text \<open>
  \<^verbatim>\<open>onValuesChange\<close> looks at the first key of \<open>changed\<close> only. For \<^verbatim>\<open>country\<close> it waits for
  \<^verbatim>\<open>handleCountryChange\<close> before it saves; the continuation keeps the \<open>allValues\<close> and the
  \<^verbatim>\<open>selectedForm\<close> of the call.
\<close>

type_synonym change_closure = "jsrecord \<times> FormStructure option"

definition onValuesChange :: "jsrecord \<Rightarrow> jsrecord \<Rightarrow> page_state \<Rightarrow> change_closure step" where
  "onValuesChange changed allValues st =
     (case changed of
        [] \<Rightarrow> Done st
      | (changedKey, v) # others \<Rightarrow>
          if changedKey = [] then Done st
          else if changedKey = ''country'' then
            (case handleCountryChange v st of
               Done st' \<Rightarrow> Done (saveDraft (selectedForm st) allValues st')
             | Await u st' \<Rightarrow> Await (allValues, selectedForm st) st')
          else Done (saveDraft (selectedForm st) allValues st))"

definition onValuesChange_resume :: "change_closure \<Rightarrow> jsval outcome \<Rightarrow> page_state \<Rightarrow> page_state" where
  "onValuesChange_resume c res st =
     saveDraft (snd c) (fst c) (handleCountryChange_resume res st)"





section \<open>Notions used in the statements\<close>

text \<open>The state a handler leaves behind, whether it has finished or is waiting.\<close>

fun stateOf :: "'c step \<Rightarrow> page_state" where
  "stateOf (Done st) = st"
| "stateOf (Await c st) = st"

text \<open>When the request of a waiting \<^verbatim>\<open>onValuesChange\<close> call settles, its continuation runs
  on the state of that moment.\<close>

fun settle :: "change_closure step \<Rightarrow> jsval outcome \<Rightarrow> page_state \<Rightarrow> page_state" where
  "settle (Done st') res st = st"
| "settle (Await c st') res st = onValuesChange_resume c res st"

text \<open>
  Two changes of \<^verbatim>\<open>country\<close> in a row, to \<open>v1\<close> (request F1) and then to \<open>v2\<close> (request F2),
  both requests in flight; afterwards the two responses arrive in one order or the other.
\<close>

definition afterTwoChanges ::
  "jsval \<Rightarrow> jsrecord \<Rightarrow> jsval \<Rightarrow> jsrecord \<Rightarrow> page_state \<Rightarrow> change_closure step \<times> change_closure step" where
  "afterTwoChanges v1 all1 v2 all2 st =
     (let h1 = onValuesChange [(''country'', v1)] all1 st;
          h2 = onValuesChange [(''country'', v2)] all2 (stateOf h1)
      in (h1, h2))"

definition staleResponseLast ::
  "jsval \<Rightarrow> jsrecord \<Rightarrow> jsval \<Rightarrow> jsrecord \<Rightarrow> jsval outcome \<Rightarrow> jsval outcome \<Rightarrow> page_state \<Rightarrow> page_state" where
  "staleResponseLast v1 all1 v2 all2 res1 res2 st =
     (case afterTwoChanges v1 all1 v2 all2 st of
        (h1, h2) \<Rightarrow> settle h1 res1 (settle h2 res2 (stateOf h2)))"

definition staleResponseFirst ::
  "jsval \<Rightarrow> jsrecord \<Rightarrow> jsval \<Rightarrow> jsrecord \<Rightarrow> jsval outcome \<Rightarrow> jsval outcome \<Rightarrow> page_state \<Rightarrow> page_state" where
  "staleResponseFirst v1 all1 v2 all2 res1 res2 st =
     (case afterTwoChanges v1 all1 v2 all2 st of
        (h1, h2) \<Rightarrow> settle h2 res2 (settle h1 res1 (stateOf h2)))"



text \<open>A field counts as required and shown for the check of \<^verbatim>\<open>onFinish\<close>.\<close>

definition requiredVisible :: "SimpleField \<Rightarrow> jsrecord \<Rightarrow> bool" where
  "requiredVisible fld vals = (sf_required fld = Some True \<and> shouldShowField fld vals)"

text \<open>The kinds \<^verbatim>\<open>FieldRenderer\<close> has a case for.\<close>

definition knownKinds :: "string list" where
  "knownKinds = [''text'', ''number'', ''date'', ''select'', ''radio'', ''checkbox'']"

text \<open>The members of a rendered group that produced output.\<close>

fun renderedMembers :: "element \<Rightarrow> string list" where
  "renderedMembers (SortableItem i (GroupBox l children)) =
     map fst (filter (\<lambda>child. snd child \<noteq> None) children)"
| "renderedMembers (SortableItem i (FieldBox out)) = []"

text \<open>The fields of a form that declare dynamic options depending on the field \<open>k\<close>.\<close>

definition dependentsOf :: "FormStructure \<Rightarrow> string \<Rightarrow> SimpleField list" where
  "dependentsOf sf k =
     filter (\<lambda>f. case sf_dynamicOptions f of None \<Rightarrow> False | Some d \<Rightarrow> dyn_dependsOn d = k)
            (allSimpleFields sf)"








section \<open>Statements of the specification that the code does not meet\<close>

text \<open>The specification's sentence on groups, read on what is put on the screen: the members
  of a rendered group that produce output are exactly the members the visibility evaluator
  shows.\<close>

definition groupShowsVisibleMembers :: "(string \<Rightarrow> string) \<Rightarrow> page_state \<Rightarrow> GroupField \<Rightarrow> bool" where
  "groupShowsVisibleMembers t st g =
     (case renderItem t st (Group g) of
        None \<Rightarrow> True
      | Some el \<Rightarrow>
          renderedMembers el =
            map sf_id (filter (\<lambda>f. shouldShowField f (formValues st)) (gf_fields g)))"


text \<open>The specification's sentence on stale responses: after two changes of the trigger in a
  row, with the first response arriving after the second, the cache holds the result of the
  second request.\<close>

definition lastTriggeredFetchWins ::
  "jsval \<Rightarrow> jsrecord \<Rightarrow> jsval \<Rightarrow> jsrecord \<Rightarrow> jsval outcome \<Rightarrow> jsval outcome \<Rightarrow> page_state \<Rightarrow> bool" where
  "lastTriggeredFetchWins v1 all1 v2 all2 res1 res2 st =
     (dynamicOptions (staleResponseLast v1 all1 v2 all2 res1 res2 st) ''state''
        = Some (statesOf res2))"


section \<open>Example forms and states\<close>

text \<open>Concrete inputs on which the theorems below are instantiated.\<close>

definition plainField :: "string \<Rightarrow> string \<Rightarrow> SimpleField" where
  "plainField i kind =
     \<lparr>sf_id = i, sf_label = i, sf_type = kind, sf_required = None, sf_options = None,
      sf_dynamicOptions = None, sf_visibility = None, sf_validation = None\<rparr>"

definition discountField :: "string \<Rightarrow> SimpleField" where
  "discountField cond =
     \<lparr>sf_id = ''discount'', sf_label = ''Discount'', sf_type = ''text'', sf_required = None,
      sf_options = None, sf_dynamicOptions = None,
      sf_visibility = Some \<lparr>vis_dependsOn = ''smoker'', vis_condition = cond, vis_value = ''Yes''\<rparr>,
      sf_validation = None\<rparr>"

definition emptyState :: page_state where
  "emptyState =
     \<lparr>selectedForm = None, form_store = [], form_errors = Map.empty, formValues = [],
      dynamicOptions = Map.empty, submitting = False, localStorage = Map.empty, effects = []\<rparr>"

definition withFields :: "FieldItem list \<Rightarrow> page_state \<Rightarrow> page_state" where
  "withFields items st =
     st\<lparr>selectedForm := Some \<lparr>formId = ''f'', title = ''F'', form_fields = items\<rparr>\<rparr>"

definition abcdForm :: FormStructure where
  "abcdForm =
     \<lparr>formId = ''f'', title = ''F'',
      form_fields = [Simple (plainField ''A'' ''text''), Simple (plainField ''B'' ''text''),
                     Simple (plainField ''C'' ''text''), Simple (plainField ''D'' ''text'')]\<rparr>"

definition addressGroup :: GroupField where
  "addressGroup =
     \<lparr>gf_id = ''address'', gf_label = ''Address'', gf_fields = [plainField ''state'' ''select'']\<rparr>"

definition smokerGroup :: GroupField where
  "smokerGroup =
     \<lparr>gf_id = ''health'', gf_label = ''Health'',
      gf_fields = [discountField ''equals'', plainField ''name'' ''text'']\<rparr>"

definition requiredField :: "string \<Rightarrow> string \<Rightarrow> SimpleField" where
  "requiredField i kind = (plainField i kind)\<lparr>sf_required := Some True\<rparr>"

definition nameAgeForm :: FormStructure where
  "nameAgeForm =
     \<lparr>formId = ''life_v1'', title = ''Life'',
      form_fields = [Simple (requiredField ''name'' ''text''),
                     Group \<lparr>gf_id = ''details'', gf_label = ''Details'',
                            gf_fields = [requiredField ''age'' ''number'',
                                         (discountField ''equals'')\<lparr>sf_required := Some True\<rparr>]\<rparr>]\<rparr>"

definition nameAgeState :: "jsrecord \<Rightarrow> page_state" where
  "nameAgeState vals = emptyState\<lparr>selectedForm := Some nameAgeForm, formValues := vals\<rparr>"

definition modelField :: SimpleField where
  "modelField =
     (plainField ''model'' ''select'')\<lparr>sf_dynamicOptions :=
        Some \<lparr>dyn_dependsOn = ''make'', dyn_endpoint = ''/api/getModels'', dyn_method = ''GET''\<rparr>\<rparr>"

definition carForm :: FormStructure where
  "carForm =
     \<lparr>formId = ''car_v1'', title = ''Car'',
      form_fields = [Simple (plainField ''make'' ''select''), Simple modelField]\<rparr>"

definition statesResponse :: "string list \<Rightarrow> jsval outcome" where
  "statesResponse names = Resolved (JObj [(''country'', JStr ''x''), (''states'', JArr (map JStr names))])"

definition stateField :: SimpleField where
  "stateField =
     (plainField ''state'' ''select'')\<lparr>sf_dynamicOptions :=
        Some \<lparr>dyn_dependsOn = ''country'', dyn_endpoint = ''/api/getStates'', dyn_method = ''GET''\<rparr>\<rparr>"

definition addressForm :: FormStructure where
  "addressForm =
     \<lparr>formId = ''home_v1'', title = ''Home'',
      form_fields = [Simple ((requiredField ''country'' ''select'')\<lparr>sf_options := Some [''US'', ''CA'']\<rparr>),
                     Simple stateField]\<rparr>"

text \<open>Pages with a form selected, nothing entered and nothing cached.\<close>

definition usCaState :: page_state where
  "usCaState = emptyState\<lparr>selectedForm := Some addressForm\<rparr>"

definition carPage :: page_state where
  "carPage = emptyState\<lparr>selectedForm := Some carForm\<rparr>"


section \<open>Lemmas about the JSON text\<close>

subsection \<open>Numbers and strings\<close>

lemma skipWhitespace_Cons: "\<not> isWhitespace c \<Longrightarrow> skipWhitespace (c # r) = c # r"
  by (simp add: skipWhitespace_def)

lemma skipWhitespace_Nil: "skipWhitespace [] = []"
  by (simp add: skipWhitespace_def)

lemma stripPrefix_append: "stripPrefix p (p @ r) = Some r"
  by (induction p) auto




















lemma joinWith_Cons:
  "joinWith sep (x # xs) = (if xs = [] then x else x @ sep @ joinWith sep xs)"
  by (cases xs) simp_all







subsection \<open>Values, elements and members\<close>















subsection \<open>The text of a value parses back to the value\<close>

lemma length_joinWith_le:
  "length (joinWith sep (x # xs)) = length x + (if xs = [] then 0 else length sep + length (joinWith sep xs))"
  by (simp add: joinWith_Cons)








subsection \<open>Two texts\<close>

lemma JSON_stringify_example:
  "JSON_stringify (JObj [(''a'', JArr [JNum (- 7), JUndefined]), (''b'', JUndefined),
                         (''c'', JDate ''2024-01-01'')]) =
     Some ([CHR ''{'', CHR 0x22, CHR ''a'', CHR 0x22] @ '':[-7,null],'' @
           [CHR 0x22, CHR ''c'', CHR 0x22, CHR '':'', CHR 0x22] @ ''2024-01-01'' @
           [CHR 0x22, CHR ''}''])"
  by (simp add: JSON_stringify_def quoteJSONString_def quoteChar_def dquote_def bslash_def
      showInt_def showNat.simps [of 7] char_of_eq_iff)

lemma JSON_parse_example:
  "JSON_parse ''[1, [true, null], -20 ]'' =
     Some (JArr [JNum 1, JArr [JBool True, JNull], JNum (- 20)])"
  by (simp add: JSON_parse_def skipWhitespace_def isWhitespace_def isDigit_def dquote_def
      parseNumber_def parseDigits_def digitValue_def consTo_def)

section \<open>Lemmas about the submit check\<close>

lemma setFieldErrors_apply:
  "setFieldErrors msg ks errs k = (if k \<in> set ks then Some [msg] else errs k)"
  by (induction ks arbitrary: errs) auto

lemma missingFields_set:
  "set (missingFields sf vals) =
     {sf_id fld | fld. fld \<in> set (allSimpleFields sf) \<and> requiredVisible fld vals \<and>
                       \<not> truthy (getProp vals (sf_id fld))}"
  by (auto simp: missingFields_def requiredVisible_def)

lemma missingFields_empty:
  "(missingFields sf vals = []) =
     (\<forall>fld \<in> set (allSimpleFields sf). requiredVisible fld vals \<longrightarrow> truthy (getProp vals (sf_id fld)))"
  by (auto simp: missingFields_def requiredVisible_def filter_empty_conv)


lemma falsy_iff:
  "(\<not> truthy v) = (v = JUndefined \<or> v = JNull \<or> v = JBool False \<or> v = JNum 0 \<or> v = JStr [])"
  by (cases v) auto

lemma nameAgeForm_fields:
  "allSimpleFields nameAgeForm =
     [requiredField ''name'' ''text'', requiredField ''age'' ''number'',
      (discountField ''equals'')\<lparr>sf_required := Some True\<rparr>]"
  by (simp add: allSimpleFields_def nameAgeForm_def)

lemma nameAge_requiredVisible:
  "requiredVisible (requiredField i k) vals"
  "requiredVisible ((discountField ''equals'')\<lparr>sf_required := Some True\<rparr>) vals
     = (getProp vals ''smoker'' = JStr ''Yes'')"
  by (simp_all add: requiredVisible_def requiredField_def plainField_def discountField_def
      shouldShowField_def)


lemma nameAge_ids:
  "sf_id (requiredField i k) = i"
  "sf_id ((discountField ''equals'')\<lparr>sf_required := Some True\<rparr>) = ''discount''"
  by (simp_all add: requiredField_def plainField_def discountField_def)

section \<open>Lemmas about the response with the states\<close>

lemma statesOf_cases:
  "statesOf Rejected = []"
  "statesOf (Resolved JUndefined) = []"
  "statesOf (Resolved JNull) = []"
  "statesOf (Resolved (JObj kvs)) = (case getProp kvs ''states'' of JArr xs \<Rightarrow> xs | _ \<Rightarrow> [])"
  by (simp_all add: statesOf_def readStates_def)




section \<open>Lemmas about drafts\<close>








section \<open>Lemmas about rendering and reordering\<close>

lemma FieldRenderer_None_iff:
  "FieldRenderer t f vals dyn = None \<longleftrightarrow>
     (sf_id f = ''state'' \<and> \<not> truthy (getProp vals ''country'')) \<or>
     (sf_id f \<noteq> ''country'' \<and> sf_id f \<noteq> ''state'' \<and> sf_type f \<notin> set knownKinds)"
  by (auto simp: FieldRenderer_def knownKinds_def Let_def)

lemma renderItem_selectedForm:
  "renderItem t (st\<lparr>selectedForm := x\<rparr>) item = renderItem t st item"
  by (simp add: renderItem_def Let_def split: FieldItem.split)

lemma findIndex_absent: "(findIndex P xs < 0) = (\<forall>x \<in> set xs. \<not> P x)"
  by (induction xs) (auto simp: Let_def)

lemma findIndex_ge: "- 1 \<le> findIndex P xs"
  by (induction xs) (auto simp: Let_def)

lemma findIndex_first:
  assumes "i < length xs" "P (xs ! i)" "\<forall>k < i. \<not> P (xs ! k)"
  shows "findIndex P xs = int i"
  using assms
proof (induction xs arbitrary: i)
  case Nil
  then show ?case by simp
next
  case (Cons x xs)
  show ?case
  proof (cases i)
    case 0
    with Cons.prems show ?thesis by simp
  next
    case (Suc i')
    have nx: "\<not> P x" using Cons.prems(3) Suc by (metis nth_Cons_0 zero_less_Suc)
    have "findIndex P xs = int i'"
    proof (rule Cons.IH)
      show "i' < length xs" using Cons.prems(1) Suc by simp
      show "P (xs ! i')" using Cons.prems(2) Suc by simp
      show "\<forall>k < i'. \<not> P (xs ! k)"
      proof (intro allI impI)
        fix k assume "k < i'"
        then have "Suc k < i" using Suc by simp
        with Cons.prems(3) have "\<not> P ((x # xs) ! Suc k)" by blast
        then show "\<not> P (xs ! k)" by simp
      qed
    qed
    with nx Suc show ?thesis by (simp add: Let_def)
  qed
qed

lemma arrayMove_forward:
  assumes "i \<le> j" "j < length xs"
  shows "arrayMove xs i j = take i xs @ take (j - i) (drop (Suc i) xs) @ xs ! i # drop (Suc j) xs"
proof -
  have i: "i < length xs" using assms by simp
  have d: "drop i xs = xs ! i # drop (Suc i) xs" using i by (simp add: Cons_nth_drop_Suc)
  have m: "min (length xs) i = i" using i by simp
  show ?thesis using assms by (simp add: arrayMove_def d m)
qed

lemma arrayMove_backward:
  assumes "j \<le> i" "i < length xs"
  shows "arrayMove xs i j = take j xs @ xs ! i # take (i - j) (drop j xs) @ drop (Suc i) xs"
proof -
  have d: "drop i xs = xs ! i # drop (Suc i) xs" using assms by (simp add: Cons_nth_drop_Suc)
  have m: "min (length xs) i = i" "min i j = j" using assms by simp_all
  have "drop j (take i xs) = take (i - j) (drop j xs)" by (simp add: drop_take)
  then show ?thesis using assms by (simp add: arrayMove_def d m)
qed

section \<open>C1: two changes of the country in a row\<close>

text \<open>
  Claim C1, as amended. When \<^verbatim>\<open>country\<close> changes twice in a row to truthy values, both
  requests are made, and each response, when it arrives, overwrites the cached options of
  \<^verbatim>\<open>state\<close>: the cache ends up with the result of the response that arrives last. It holds
  the result of the second request when the first response arrives first, and the result of
  the first request when the first response arrives after the second.
\<close>

theorem response_order_decides:
  "truthy v1 \<and> truthy v2 \<longrightarrow>
     effects (stateOf (snd (afterTwoChanges v1 all1 v2 all2 st))) =
       effects st @ [GetStates v1, GetStates v2] \<and>
     dynamicOptions (staleResponseLast v1 all1 v2 all2 res1 res2 st) ''state''
       = Some (statesOf res1) \<and>
     dynamicOptions (staleResponseFirst v1 all1 v2 all2 res1 res2 st) ''state''
       = Some (statesOf res2)"
proof (intro impI)
  assume t: "truthy v1 \<and> truthy v2"
  have ds: "dynamicOptions (saveDraft sel a x) = dynamicOptions x" for sel a x
    by (simp add: saveDraft_def split: option.split)
  have r: "dynamicOptions (onValuesChange_resume c res s) ''state'' = Some (statesOf res)" for c res s
    by (simp add: onValuesChange_resume_def handleCountryChange_resume_def ds)
  let ?s1 = "st\<lparr>effects := effects st @ [GetStates v1]\<rparr>"
  let ?s2 = "?s1\<lparr>effects := effects ?s1 @ [GetStates v2]\<rparr>"
  have two: "afterTwoChanges v1 all1 v2 all2 st =
      (Await (all1, selectedForm st) ?s1, Await (all2, selectedForm ?s1) ?s2)"
    using t by (simp add: afterTwoChanges_def onValuesChange_def handleCountryChange_def Let_def)
  show "effects (stateOf (snd (afterTwoChanges v1 all1 v2 all2 st))) =
       effects st @ [GetStates v1, GetStates v2] \<and>
     dynamicOptions (staleResponseLast v1 all1 v2 all2 res1 res2 st) ''state''
       = Some (statesOf res1) \<and>
     dynamicOptions (staleResponseFirst v1 all1 v2 all2 res1 res2 st) ''state''
       = Some (statesOf res2)"
    by (simp add: two staleResponseLast_def staleResponseFirst_def r)
qed

theorem response_order_decides_witness:
  "dynamicOptions (staleResponseLast (JStr ''US'') [(''country'', JStr ''US'')]
       (JStr ''CA'') [(''country'', JStr ''CA'')]
       (statesResponse [''NY'', ''TX'']) (statesResponse [''ON'', ''QC'']) usCaState) ''state''
     = Some [JStr ''NY'', JStr ''TX''] \<and>
   dynamicOptions (staleResponseFirst (JStr ''US'') [(''country'', JStr ''US'')]
       (JStr ''CA'') [(''country'', JStr ''CA'')]
       (statesResponse [''NY'', ''TX'']) (statesResponse [''ON'', ''QC'']) usCaState) ''state''
     = Some [JStr ''ON'', JStr ''QC''] \<and>
   effects (stateOf (snd (afterTwoChanges (JStr ''US'') [(''country'', JStr ''US'')]
       (JStr ''CA'') [(''country'', JStr ''CA'')] usCaState)))
     = [GetStates (JStr ''US''), GetStates (JStr ''CA'')]"
proof -
  have tr: "truthy (JStr ''US'') \<and> truthy (JStr ''CA'')" by simp
  have eff: "effects usCaState = []" by (simp add: usCaState_def emptyState_def)
  have so: "statesOf (statesResponse [''NY'', ''TX'']) = [JStr ''NY'', JStr ''TX'']"
    "statesOf (statesResponse [''ON'', ''QC'']) = [JStr ''ON'', JStr ''QC'']"
    by (simp_all add: statesOf_def readStates_def statesResponse_def getProp_def)
  from response_order_decides [of "JStr ''US''" "JStr ''CA''" "[(''country'', JStr ''US'')]"
      "[(''country'', JStr ''CA'')]" usCaState "statesResponse [''NY'', ''TX'']"
      "statesResponse [''ON'', ''QC'']"] tr
  show ?thesis by (simp add: so eff)
qed

text \<open>
  The claim as the specification states it fails: with the response for \<^verbatim>\<open>US\<close> arriving after
  the response for \<^verbatim>\<open>CA\<close>, the cache ends up with the states of \<^verbatim>\<open>US\<close>. And it is stated for
  every field with a \<^verbatim>\<open>dynamicOptions\<close> declaration, while a change of a trigger other than
  \<^verbatim>\<open>country\<close> makes no request at all.
\<close>

theorem stale_response_overwrites_counterexample:
  "\<not> lastTriggeredFetchWins (JStr ''US'') [(''country'', JStr ''US'')]
       (JStr ''CA'') [(''country'', JStr ''CA'')]
       (statesResponse [''NY'', ''TX'']) (statesResponse [''ON'', ''QC'']) usCaState \<and>
   dynamicOptions (staleResponseLast (JStr ''US'') [(''country'', JStr ''US'')]
       (JStr ''CA'') [(''country'', JStr ''CA'')]
       (statesResponse [''NY'', ''TX'']) (statesResponse [''ON'', ''QC'']) usCaState) ''state''
     = Some [JStr ''NY'', JStr ''TX''] \<and>
   statesOf (statesResponse [''ON'', ''QC'']) = [JStr ''ON'', JStr ''QC''] \<and>
   dependentsOf carForm ''make'' = [modelField] \<and>
   onValuesChange [(''make'', JStr ''Audi'')] [(''make'', JStr ''Audi'')] carPage =
     Done (saveDraft (Some carForm) [(''make'', JStr ''Audi'')] carPage) \<and>
   effects (saveDraft (Some carForm) [(''make'', JStr ''Audi'')] carPage) = []"
proof -
  have race: "dynamicOptions (staleResponseLast (JStr ''US'') [(''country'', JStr ''US'')]
       (JStr ''CA'') [(''country'', JStr ''CA'')]
       (statesResponse [''NY'', ''TX'']) (statesResponse [''ON'', ''QC'']) usCaState) ''state''
     = Some [JStr ''NY'', JStr ''TX'']"
    by (simp add: staleResponseLast_def afterTwoChanges_def
      onValuesChange_def handleCountryChange_def onValuesChange_resume_def
      handleCountryChange_resume_def saveDraft_def statesOf_def readStates_def
      statesResponse_def getProp_def usCaState_def emptyState_def Let_def)
  have second: "statesOf (statesResponse [''ON'', ''QC'']) = [JStr ''ON'', JStr ''QC'']"
    by (simp add: statesOf_def readStates_def statesResponse_def getProp_def)
  have deps: "dependentsOf carForm ''make'' = [modelField]"
    by (simp add: dependentsOf_def carForm_def allSimpleFields_def modelField_def plainField_def)
  have other: "onValuesChange [(''make'', JStr ''Audi'')] [(''make'', JStr ''Audi'')] carPage =
     Done (saveDraft (Some carForm) [(''make'', JStr ''Audi'')] carPage)"
    by (simp add: onValuesChange_def carPage_def)
  have quiet: "effects (saveDraft (Some carForm) [(''make'', JStr ''Audi'')] carPage) = []"
    by (simp add: saveDraft_def carPage_def emptyState_def)
  show ?thesis
    using race second deps other quiet by (simp add: lastTriggeredFetchWins_def)
qed

section \<open>C2: a missing required field blocks the submission\<close>



section \<open>C3: the visibility evaluator\<close>

text \<open>
  Claim C3. \<^verbatim>\<open>shouldShowField\<close> shows a field that has no visibility spec. With the condition
  \<^verbatim>\<open>equals\<close> it shows the field exactly when the answer under \<^verbatim>\<open>dependsOn\<close> is the configured
  string; an absent answer and an answer that is not a string hide it. With \<^verbatim>\<open>not_equals\<close> it
  shows the field exactly when the answer differs from the configured string, so an absent
  answer shows it. With any other condition it shows the field.
\<close>

theorem shouldShowField_contract:
  "(sf_visibility f = None \<longrightarrow> shouldShowField f a) \<and>
   (\<forall>v. sf_visibility f = Some v \<and> vis_condition v = ''equals'' \<longrightarrow>
        (shouldShowField f a \<longleftrightarrow> getProp a (vis_dependsOn v) = JStr (vis_value v)) \<and>
        (map_of a (vis_dependsOn v) = None \<longrightarrow> \<not> shouldShowField f a) \<and>
        ((\<forall>s. getProp a (vis_dependsOn v) \<noteq> JStr s) \<longrightarrow> \<not> shouldShowField f a)) \<and>
   (\<forall>v. sf_visibility f = Some v \<and> vis_condition v = ''not_equals'' \<longrightarrow>
        (shouldShowField f a \<longleftrightarrow> getProp a (vis_dependsOn v) \<noteq> JStr (vis_value v)) \<and>
        (map_of a (vis_dependsOn v) = None \<longrightarrow> shouldShowField f a)) \<and>
   (\<forall>v. sf_visibility f = Some v \<and> vis_condition v \<noteq> ''equals'' \<and>
        vis_condition v \<noteq> ''not_equals'' \<longrightarrow> shouldShowField f a)"
  by (auto simp: shouldShowField_def getProp_def Let_def)

theorem shouldShowField_contract_witness:
  "shouldShowField (discountField ''equals'') [(''smoker'', JStr ''Yes'')] \<and>
   \<not> shouldShowField (discountField ''equals'') [(''smoker'', JStr ''No'')] \<and>
   \<not> shouldShowField (discountField ''equals'') [] \<and>
   \<not> shouldShowField (discountField ''equals'') [(''smoker'', JBool True)] \<and>
   \<not> shouldShowField (discountField ''not_equals'') [(''smoker'', JStr ''Yes'')] \<and>
   shouldShowField (discountField ''not_equals'') [] \<and>
   shouldShowField (discountField ''contains'') [(''smoker'', JStr ''No'')] \<and>
   shouldShowField ((discountField ''equals'')\<lparr>sf_visibility := None\<rparr>) []"
  using shouldShowField_contract [of "discountField ''equals''" "[(''smoker'', JStr ''Yes'')]"]
    shouldShowField_contract [of "discountField ''equals''" "[(''smoker'', JStr ''No'')]"]
    shouldShowField_contract [of "discountField ''equals''" "[]"]
    shouldShowField_contract [of "discountField ''equals''" "[(''smoker'', JBool True)]"]
    shouldShowField_contract [of "discountField ''not_equals''" "[(''smoker'', JStr ''Yes'')]"]
    shouldShowField_contract [of "discountField ''not_equals''" "[]"]
    shouldShowField_contract [of "discountField ''contains''" "[(''smoker'', JStr ''No'')]"]
    shouldShowField_contract [of "(discountField ''equals'')\<lparr>sf_visibility := None\<rparr>" "[]"]
  by (simp add: discountField_def getProp_def)

section \<open>C4: the payload of a submission\<close>



section \<open>C5: rendering a group\<close>

text \<open>
  Claim C5, as amended. A group is rendered exactly when at least one member is shown by the
  visibility evaluator, and produces nothing at all otherwise. A rendered group hands exactly
  its shown members, in order, to \<^verbatim>\<open>FieldRenderer\<close>; the members that appear are those of them for
  which \<^verbatim>\<open>FieldRenderer\<close> returns output, and it returns none exactly for \<^verbatim>\<open>state\<close> while
  \<^verbatim>\<open>country\<close> has no truthy value in the form, and for a field of an unrecognized kind whose
  id is neither \<^verbatim>\<open>country\<close> nor \<^verbatim>\<open>state\<close>.
\<close>

theorem group_rendering:
  "renderItem t st (Group g) =
     (if \<exists>f \<in> set (gf_fields g). shouldShowField f (formValues st)
      then Some (SortableItem (gf_id g) (GroupBox (gf_label g)
             (map (\<lambda>f. (sf_id f, FieldRenderer t f (form_store st) (dynamicOptions st)))
                  (filter (\<lambda>f. shouldShowField f (formValues st)) (gf_fields g)))))
      else None) \<and>
   (\<forall>el. renderItem t st (Group g) = Some el \<longrightarrow>
      renderedMembers el =
        map sf_id (filter (\<lambda>f. shouldShowField f (formValues st) \<and>
                               FieldRenderer t f (form_store st) (dynamicOptions st) \<noteq> None)
                          (gf_fields g))) \<and>
   (\<forall>f. (FieldRenderer t f (form_store st) (dynamicOptions st) = None) =
      ((sf_id f = ''state'' \<and> \<not> truthy (getProp (form_store st) ''country'')) \<or>
       (sf_id f \<noteq> ''country'' \<and> sf_id f \<noteq> ''state'' \<and> sf_type f \<notin> set knownKinds)))"
proof (intro conjI allI impI)
  show r: "renderItem t st (Group g) =
     (if \<exists>f \<in> set (gf_fields g). shouldShowField f (formValues st)
      then Some (SortableItem (gf_id g) (GroupBox (gf_label g)
             (map (\<lambda>f. (sf_id f, FieldRenderer t f (form_store st) (dynamicOptions st)))
                  (filter (\<lambda>f. shouldShowField f (formValues st)) (gf_fields g)))))
      else None)"
    by (auto simp: renderItem_def Let_def filter_empty_conv)
  show "renderedMembers el =
        map sf_id (filter (\<lambda>f. shouldShowField f (formValues st) \<and>
                               FieldRenderer t f (form_store st) (dynamicOptions st) \<noteq> None)
                          (gf_fields g))"
    if "renderItem t st (Group g) = Some el" for el
  proof -
    have "map fst (filter (\<lambda>child. snd child \<noteq> None)
             (map (\<lambda>f. (sf_id f, FieldRenderer t f (form_store st) (dynamicOptions st))) xs))
          = map sf_id (filter (\<lambda>f. FieldRenderer t f (form_store st) (dynamicOptions st) \<noteq> None) xs)"
      for xs by (induction xs) auto
    then show ?thesis using that r
      by (auto simp: filter_filter conj_commute split: if_splits)
  qed
  show "(FieldRenderer t f (form_store st) (dynamicOptions st) = None) =
      ((sf_id f = ''state'' \<and> \<not> truthy (getProp (form_store st) ''country'')) \<or>
       (sf_id f \<noteq> ''country'' \<and> sf_id f \<noteq> ''state'' \<and> sf_type f \<notin> set knownKinds))" for f
    by (rule FieldRenderer_None_iff)
qed

text \<open>
  The claim as the specification states it fails: a group whose only member is \<^verbatim>\<open>state\<close>, in a
  form without a country, is rendered (the member is shown by the evaluator) and its box is
  empty.
\<close>

theorem group_member_not_rendered_counterexample:
  "\<not> groupShowsVisibleMembers (\<lambda>k. k) emptyState addressGroup \<and>
   renderItem (\<lambda>k. k) emptyState (Group addressGroup) =
     Some (SortableItem ''address'' (GroupBox ''Address'' [(''state'', None)])) \<and>
   filter (\<lambda>f. shouldShowField f (formValues emptyState)) (gf_fields addressGroup) =
     [plainField ''state'' ''select'']"
  by (simp add: groupShowsVisibleMembers_def renderItem_def addressGroup_def plainField_def
      emptyState_def shouldShowField_def FieldRenderer_def getProp_def Let_def)

theorem group_rendering_witness:
  "renderItem (\<lambda>k. k) (emptyState\<lparr>formValues := [(''smoker'', JStr ''No'')]\<rparr>) (Group smokerGroup) =
     Some (SortableItem ''health'' (GroupBox ''Health''
       [(''name'', Some \<lparr>fi_name = ''name'', fi_label = ''name'', fi_rules = [],
                         fi_valuePropName = None, fi_control = Input\<rparr>)])) \<and>
   renderedMembers (SortableItem ''health'' (GroupBox ''Health''
       [(''name'', Some \<lparr>fi_name = ''name'', fi_label = ''name'', fi_rules = [],
                         fi_valuePropName = None, fi_control = Input\<rparr>)])) = [''name''] \<and>
   renderItem (\<lambda>k. k) (emptyState\<lparr>formValues := [(''smoker'', JStr ''No'')]\<rparr>)
     (Group (smokerGroup\<lparr>gf_fields := [discountField ''equals'']\<rparr>)) = None"
proof -
  let ?st = "emptyState\<lparr>formValues := [(''smoker'', JStr ''No'')]\<rparr>"
  have vis: "\<not> shouldShowField (discountField ''equals'') (formValues ?st)"
    "shouldShowField (plainField ''name'' ''text'') (formValues ?st)"
    by (simp_all add: shouldShowField_def discountField_def plainField_def getProp_def)
  have fr: "FieldRenderer (\<lambda>k. k) (plainField ''name'' ''text'') (form_store ?st) (dynamicOptions ?st)
      = Some \<lparr>fi_name = ''name'', fi_label = ''name'', fi_rules = [],
              fi_valuePropName = None, fi_control = Input\<rparr>"
    by (simp add: FieldRenderer_def plainField_def)
  have ids: "sf_id (plainField ''name'' ''text'') = ''name''" by (simp add: plainField_def)
  from group_rendering [of "\<lambda>k. k" ?st smokerGroup]
  have one: "renderItem (\<lambda>k. k) ?st (Group smokerGroup) =
     Some (SortableItem ''health'' (GroupBox ''Health''
       [(''name'', Some \<lparr>fi_name = ''name'', fi_label = ''name'', fi_rules = [],
                         fi_valuePropName = None, fi_control = Input\<rparr>)]))"
    using vis fr ids by (simp add: smokerGroup_def)
  from group_rendering [of "\<lambda>k. k" ?st "smokerGroup\<lparr>gf_fields := [discountField ''equals'']\<rparr>"]
  have two: "renderItem (\<lambda>k. k) ?st (Group (smokerGroup\<lparr>gf_fields := [discountField ''equals'']\<rparr>)) = None"
    using vis by simp
  show ?thesis using one two by simp
qed

section \<open>C6: drafts\<close>



section \<open>C7: reordering the top-level items\<close>

text \<open>
  Claim C7. A drag from the item \<open>fromId\<close> onto the item \<open>toId\<close> takes the item at the first
  position \<open>i\<close> of \<open>fromId\<close> out and puts it back at the first position \<open>j\<close> of \<open>toId\<close>: the
  items between the two positions move by one towards \<open>i\<close>, all others stay. Nothing changes
  when no form is selected, when the drag ends over no item, when \<open>fromId\<close> is \<open>toId\<close>, or
  when one of the two ids is not an id of the list.
\<close>

theorem handleDragEnd_reorder:
  "(selectedForm st = None \<longrightarrow> handleDragEnd ev st = st) \<and>
   (over_id ev = None \<longrightarrow> handleDragEnd ev st = st) \<and>
   (over_id ev = Some (active_id ev) \<longrightarrow> handleDragEnd ev st = st) \<and>
   (\<forall>sf. selectedForm st = Some sf \<and> active_id ev \<notin> item_id ` set (form_fields sf) \<longrightarrow>
        handleDragEnd ev st = st) \<and>
   (\<forall>sf toId. selectedForm st = Some sf \<and> over_id ev = Some toId \<and>
        toId \<notin> item_id ` set (form_fields sf) \<longrightarrow> handleDragEnd ev st = st) \<and>
   (\<forall>sf toId i j. selectedForm st = Some sf \<and> over_id ev = Some toId \<and> active_id ev \<noteq> toId \<and>
        i < length (form_fields sf) \<and> item_id (form_fields sf ! i) = active_id ev \<and>
        (\<forall>k < i. item_id (form_fields sf ! k) \<noteq> active_id ev) \<and>
        j < length (form_fields sf) \<and> item_id (form_fields sf ! j) = toId \<and>
        (\<forall>k < j. item_id (form_fields sf ! k) \<noteq> toId) \<longrightarrow>
        handleDragEnd ev st =
          st\<lparr>selectedForm := Some (sf\<lparr>form_fields :=
             (if i \<le> j
              then take i (form_fields sf) @ take (j - i) (drop (Suc i) (form_fields sf)) @
                   form_fields sf ! i # drop (Suc j) (form_fields sf)
              else take j (form_fields sf) @ form_fields sf ! i #
                   take (i - j) (drop j (form_fields sf)) @ drop (Suc i) (form_fields sf))\<rparr>)\<rparr>)"
proof (intro conjI allI impI)
  show "handleDragEnd ev st = st" if "selectedForm st = None"
    using that by (simp add: handleDragEnd_def split: option.split)
  show "handleDragEnd ev st = st" if "over_id ev = None"
    using that by (simp add: handleDragEnd_def)
  show "handleDragEnd ev st = st" if "over_id ev = Some (active_id ev)"
    using that by (simp add: handleDragEnd_def split: option.split)
next
  fix sf
  assume a: "selectedForm st = Some sf \<and> active_id ev \<notin> item_id ` set (form_fields sf)"
  then have "findIndex (\<lambda>f. item_id f = active_id ev) (form_fields sf) < 0"
    unfolding findIndex_absent by (metis imageI)
  with a show "handleDragEnd ev st = st"
    by (simp add: handleDragEnd_def Let_def split: option.split)
next
  fix sf toId
  assume a: "selectedForm st = Some sf \<and> over_id ev = Some toId \<and>
        toId \<notin> item_id ` set (form_fields sf)"
  then have "findIndex (\<lambda>f. item_id f = toId) (form_fields sf) < 0"
    unfolding findIndex_absent by (metis imageI)
  with a show "handleDragEnd ev st = st"
    by (simp add: handleDragEnd_def Let_def)
next
  fix sf :: FormStructure and toId i j
  let ?xs = "form_fields sf"
  assume a: "selectedForm st = Some sf \<and> over_id ev = Some toId \<and> active_id ev \<noteq> toId \<and>
        i < length ?xs \<and> item_id (?xs ! i) = active_id ev \<and>
        (\<forall>k < i. item_id (?xs ! k) \<noteq> active_id ev) \<and>
        j < length ?xs \<and> item_id (?xs ! j) = toId \<and>
        (\<forall>k < j. item_id (?xs ! k) \<noteq> toId)"
  have oi: "findIndex (\<lambda>f. item_id f = active_id ev) ?xs = int i"
    using a by (intro findIndex_first) auto
  have ni: "findIndex (\<lambda>f. item_id f = toId) ?xs = int j"
    using a by (intro findIndex_first) auto
  have mv: "arrayMove ?xs i j =
      (if i \<le> j
       then take i ?xs @ take (j - i) (drop (Suc i) ?xs) @ ?xs ! i # drop (Suc j) ?xs
       else take j ?xs @ ?xs ! i # take (i - j) (drop j ?xs) @ drop (Suc i) ?xs)"
    using a arrayMove_forward [of i j ?xs] arrayMove_backward [of j i ?xs] by auto
  show "handleDragEnd ev st =
          st\<lparr>selectedForm := Some (sf\<lparr>form_fields :=
             (if i \<le> j
              then take i ?xs @ take (j - i) (drop (Suc i) ?xs) @ ?xs ! i # drop (Suc j) ?xs
              else take j ?xs @ ?xs ! i # take (i - j) (drop j ?xs) @ drop (Suc i) ?xs)\<rparr>)\<rparr>"
    using a by (simp add: handleDragEnd_def Let_def oi ni mv)
qed


theorem handleDragEnd_reorder_witness:
  "map item_id (form_fields (the (selectedForm
      (handleDragEnd \<lparr>active_id = ''A'', over_id = Some ''C''\<rparr>
         (emptyState\<lparr>selectedForm := Some abcdForm\<rparr>)))))
     = [''B'', ''C'', ''A'', ''D''] \<and>
   map item_id (form_fields (the (selectedForm
      (handleDragEnd \<lparr>active_id = ''D'', over_id = Some ''B''\<rparr>
         (emptyState\<lparr>selectedForm := Some abcdForm\<rparr>)))))
     = [''A'', ''D'', ''B'', ''C''] \<and>
   handleDragEnd \<lparr>active_id = ''A'', over_id = Some ''A''\<rparr>
      (emptyState\<lparr>selectedForm := Some abcdForm\<rparr>)
     = emptyState\<lparr>selectedForm := Some abcdForm\<rparr> \<and>
   handleDragEnd \<lparr>active_id = ''A'', over_id = Some ''Z''\<rparr>
      (emptyState\<lparr>selectedForm := Some abcdForm\<rparr>)
     = emptyState\<lparr>selectedForm := Some abcdForm\<rparr> \<and>
   handleDragEnd \<lparr>active_id = ''Z'', over_id = Some ''A''\<rparr>
      (emptyState\<lparr>selectedForm := Some abcdForm\<rparr>)
     = emptyState\<lparr>selectedForm := Some abcdForm\<rparr> \<and>
   handleDragEnd \<lparr>active_id = ''A'', over_id = None\<rparr>
      (emptyState\<lparr>selectedForm := Some abcdForm\<rparr>)
     = emptyState\<lparr>selectedForm := Some abcdForm\<rparr> \<and>
   handleDragEnd \<lparr>active_id = ''A'', over_id = Some ''C''\<rparr> emptyState = emptyState"
proof -
  let ?st = "emptyState\<lparr>selectedForm := Some abcdForm\<rparr>"
  have ff: "form_fields abcdForm = [Simple (plainField ''A'' ''text''), Simple (plainField ''B'' ''text''),
                     Simple (plainField ''C'' ''text''), Simple (plainField ''D'' ''text'')]"
    by (simp add: abcdForm_def)
  have ids: "sf_id (plainField i k) = i" for i k by (simp add: plainField_def)
  have none: "selectedForm emptyState = None" by (simp add: emptyState_def)
  have lt: "\<And>k. k < (2::nat) \<longleftrightarrow> k = 0 \<or> k = 1"
    "\<And>k. k < (3::nat) \<longleftrightarrow> k = 0 \<or> k = 1 \<or> k = 2" by auto
  note fwd = handleDragEnd_reorder [of ?st "\<lparr>active_id = ''A'', over_id = Some ''C''\<rparr>",
      THEN conjunct2, THEN conjunct2, THEN conjunct2, THEN conjunct2, THEN conjunct2,
      rule_format, where sf = abcdForm and toId = "''C''" and i = 0 and j = 2]
  have move: "handleDragEnd \<lparr>active_id = ''A'', over_id = Some ''C''\<rparr> ?st =
      ?st\<lparr>selectedForm := Some (abcdForm\<lparr>form_fields :=
         [Simple (plainField ''B'' ''text''), Simple (plainField ''C'' ''text''),
          Simple (plainField ''A'' ''text''), Simple (plainField ''D'' ''text'')]\<rparr>)\<rparr>"
    using fwd by (simp add: ff ids lt)
  note bwd = handleDragEnd_reorder [of ?st "\<lparr>active_id = ''D'', over_id = Some ''B''\<rparr>",
      THEN conjunct2, THEN conjunct2, THEN conjunct2, THEN conjunct2, THEN conjunct2,
      rule_format, where sf = abcdForm and toId = "''B''" and i = 3 and j = 1]
  have moveBack: "handleDragEnd \<lparr>active_id = ''D'', over_id = Some ''B''\<rparr> ?st =
      ?st\<lparr>selectedForm := Some (abcdForm\<lparr>form_fields :=
         [Simple (plainField ''A'' ''text''), Simple (plainField ''D'' ''text''),
          Simple (plainField ''B'' ''text''), Simple (plainField ''C'' ''text'')]\<rparr>)\<rparr>"
    using bwd by (simp add: ff ids lt)
  from handleDragEnd_reorder [of ?st "\<lparr>active_id = ''A'', over_id = Some ''A''\<rparr>"]
  have same: "handleDragEnd \<lparr>active_id = ''A'', over_id = Some ''A''\<rparr> ?st = ?st" by simp
  from handleDragEnd_reorder [of ?st "\<lparr>active_id = ''A'', over_id = Some ''Z''\<rparr>"]
  have absentTo: "handleDragEnd \<lparr>active_id = ''A'', over_id = Some ''Z''\<rparr> ?st = ?st"
    by (simp add: ff ids)
  from handleDragEnd_reorder [of ?st "\<lparr>active_id = ''Z'', over_id = Some ''A''\<rparr>"]
  have absentFrom: "handleDragEnd \<lparr>active_id = ''Z'', over_id = Some ''A''\<rparr> ?st = ?st"
    by (simp add: ff ids)
  from handleDragEnd_reorder [of ?st "\<lparr>active_id = ''A'', over_id = None\<rparr>"]
  have nowhere: "handleDragEnd \<lparr>active_id = ''A'', over_id = None\<rparr> ?st = ?st" by simp
  from handleDragEnd_reorder [of emptyState "\<lparr>active_id = ''A'', over_id = Some ''C''\<rparr>"]
  have noForm: "handleDragEnd \<lparr>active_id = ''A'', over_id = Some ''C''\<rparr> emptyState = emptyState"
    by (simp add: none)
  show ?thesis using move moveBack same absentTo absentFrom nowhere noForm by (simp add: ids)
qed

section \<open>C8: recovery when the state options cannot be loaded\<close>




section \<open>C9: fields of an unrecognized kind\<close>

text \<open>
  Claim C9. For a field whose kind is none of text, number, date, select, radio and checkbox,
  and whose id is neither \<^verbatim>\<open>country\<close> nor \<^verbatim>\<open>state\<close>, \<^verbatim>\<open>FieldRenderer\<close> returns nothing. The
  form still renders: at top level the item is an empty box (or nothing when the field is
  hidden) and the items before and after it render as they do without it; inside a group
  the other members render as they do without it.
\<close>

theorem unrecognized_kind_not_fatal:
  "sf_type f \<notin> set knownKinds \<and> sf_id f \<noteq> ''country'' \<and> sf_id f \<noteq> ''state'' \<longrightarrow>
     FieldRenderer t f vals dyn = None \<and>
     renderItem t st (Simple f) =
       (if shouldShowField f (formValues st) then Some (SortableItem (sf_id f) (FieldBox None))
        else None) \<and>
     renderFields t (withFields (before @ Simple f # after) st) =
       renderFields t (withFields before st) @
       renderItem t st (Simple f) #
       renderFields t (withFields after st) \<and>
     renderItem t st (Group \<lparr>gf_id = gi, gf_label = gl, gf_fields = bs @ f # as\<rparr>) =
       (case renderItem t st (Group \<lparr>gf_id = gi, gf_label = gl, gf_fields = bs @ as\<rparr>) of
          None \<Rightarrow>
            (if shouldShowField f (formValues st)
             then Some (SortableItem gi (GroupBox gl [(sf_id f, None)])) else None)
        | Some el \<Rightarrow>
            Some (SortableItem gi (GroupBox gl
              (map (\<lambda>m. (sf_id m, FieldRenderer t m (form_store st) (dynamicOptions st)))
                   (filter (\<lambda>m. shouldShowField m (formValues st)) bs) @
               (if shouldShowField f (formValues st) then [(sf_id f, None)] else []) @
               map (\<lambda>m. (sf_id m, FieldRenderer t m (form_store st) (dynamicOptions st)))
                   (filter (\<lambda>m. shouldShowField m (formValues st)) as)))))"
proof (intro impI)
  assume a: "sf_type f \<notin> set knownKinds \<and> sf_id f \<noteq> ''country'' \<and> sf_id f \<noteq> ''state''"
  then have none: "\<And>vals dyn. FieldRenderer t f vals dyn = None"
    by (simp add: FieldRenderer_None_iff)
  have top: "renderItem t st (Simple f) =
       (if shouldShowField f (formValues st) then Some (SortableItem (sf_id f) (FieldBox None))
        else None)"
    by (simp add: renderItem_def none)
  have rest: "renderFields t (withFields (before @ Simple f # after) st) =
       renderFields t (withFields before st) @
       renderItem t st (Simple f) #
       renderFields t (withFields after st)"
    by (simp add: renderFields_def withFields_def renderItem_selectedForm)
  have grp: "renderItem t st (Group \<lparr>gf_id = gi, gf_label = gl, gf_fields = bs @ f # as\<rparr>) =
       (case renderItem t st (Group \<lparr>gf_id = gi, gf_label = gl, gf_fields = bs @ as\<rparr>) of
          None \<Rightarrow>
            (if shouldShowField f (formValues st)
             then Some (SortableItem gi (GroupBox gl [(sf_id f, None)])) else None)
        | Some el \<Rightarrow>
            Some (SortableItem gi (GroupBox gl
              (map (\<lambda>m. (sf_id m, FieldRenderer t m (form_store st) (dynamicOptions st)))
                   (filter (\<lambda>m. shouldShowField m (formValues st)) bs) @
               (if shouldShowField f (formValues st) then [(sf_id f, None)] else []) @
               map (\<lambda>m. (sf_id m, FieldRenderer t m (form_store st) (dynamicOptions st)))
                   (filter (\<lambda>m. shouldShowField m (formValues st)) as)))))"
    by (simp add: renderItem_def none Let_def)
  show "FieldRenderer t f vals dyn = None \<and>
     renderItem t st (Simple f) =
       (if shouldShowField f (formValues st) then Some (SortableItem (sf_id f) (FieldBox None))
        else None) \<and>
     renderFields t (withFields (before @ Simple f # after) st) =
       renderFields t (withFields before st) @
       renderItem t st (Simple f) #
       renderFields t (withFields after st) \<and>
     renderItem t st (Group \<lparr>gf_id = gi, gf_label = gl, gf_fields = bs @ f # as\<rparr>) =
       (case renderItem t st (Group \<lparr>gf_id = gi, gf_label = gl, gf_fields = bs @ as\<rparr>) of
          None \<Rightarrow>
            (if shouldShowField f (formValues st)
             then Some (SortableItem gi (GroupBox gl [(sf_id f, None)])) else None)
        | Some el \<Rightarrow>
            Some (SortableItem gi (GroupBox gl
              (map (\<lambda>m. (sf_id m, FieldRenderer t m (form_store st) (dynamicOptions st)))
                   (filter (\<lambda>m. shouldShowField m (formValues st)) bs) @
               (if shouldShowField f (formValues st) then [(sf_id f, None)] else []) @
               map (\<lambda>m. (sf_id m, FieldRenderer t m (form_store st) (dynamicOptions st)))
                   (filter (\<lambda>m. shouldShowField m (formValues st)) as)))))"
    using none top rest grp by blast
qed


theorem unrecognized_kind_not_fatal_witness:
  "FieldRenderer (\<lambda>k. k) (plainField ''sig'' ''signature'') [] Map.empty = None \<and>
   renderFields (\<lambda>k. k)
     (withFields [Simple (plainField ''A'' ''text''), Simple (plainField ''sig'' ''signature''),
                  Simple (plainField ''B'' ''date'')] emptyState) =
     [Some (SortableItem ''A'' (FieldBox (Some \<lparr>fi_name = ''A'', fi_label = ''A'', fi_rules = [],
              fi_valuePropName = None, fi_control = Input\<rparr>))),
      Some (SortableItem ''sig'' (FieldBox None)),
      Some (SortableItem ''B'' (FieldBox (Some \<lparr>fi_name = ''B'', fi_label = ''B'', fi_rules = [],
              fi_valuePropName = None, fi_control = DatePicker\<rparr>)))]"
proof -
  have kind: "sf_type (plainField ''sig'' ''signature'') \<notin> set knownKinds \<and>
      sf_id (plainField ''sig'' ''signature'') \<noteq> ''country'' \<and>
      sf_id (plainField ''sig'' ''signature'') \<noteq> ''state''"
    by (simp add: plainField_def knownKinds_def)
  have others: "renderFields (\<lambda>k. k) (withFields [Simple (plainField ''A'' ''text'')] emptyState) =
      [Some (SortableItem ''A'' (FieldBox (Some \<lparr>fi_name = ''A'', fi_label = ''A'', fi_rules = [],
              fi_valuePropName = None, fi_control = Input\<rparr>)))]"
    "renderFields (\<lambda>k. k) (withFields [Simple (plainField ''B'' ''date'')] emptyState) =
      [Some (SortableItem ''B'' (FieldBox (Some \<lparr>fi_name = ''B'', fi_label = ''B'', fi_rules = [],
              fi_valuePropName = None, fi_control = DatePicker\<rparr>)))]"
    by (simp_all add: renderFields_def withFields_def renderItem_def shouldShowField_def
        FieldRenderer_def plainField_def emptyState_def Let_def)
  have shown: "shouldShowField (plainField ''sig'' ''signature'') (formValues emptyState)"
    by (simp add: shouldShowField_def plainField_def)
  from unrecognized_kind_not_fatal [where f = "plainField ''sig'' ''signature''"
      and t = "\<lambda>k. k" and vals = "[]" and dyn = Map.empty and st = emptyState
      and before = "[Simple (plainField ''A'' ''text'')]"
      and after = "[Simple (plainField ''B'' ''date'')]"] kind
  show ?thesis
    by (simp add: others shown) (simp add: plainField_def)
qed

section \<open>C10: what counts as empty at submit time\<close>

text \<open>
  Claim C10. For a required field that the evaluator shows, the submit check takes the
  value as missing exactly when it is falsy: \<^verbatim>\<open>undefined\<close>, \<^verbatim>\<open>null\<close>, \<^verbatim>\<open>false\<close>, \<open>0\<close> or the
  empty string. So the values \<open>0\<close> and \<^verbatim>\<open>false\<close> block the submission with the error on the
  field, while an empty array is not missing: a form whose required shown fields hold truthy
  values or empty arrays is posted.
\<close>

theorem emptiness_is_falsiness:
  "selectedForm st = Some sf \<and> fld \<in> set (allSimpleFields sf) \<and>
   requiredVisible fld (formValues st) \<longrightarrow>
   ((sf_id fld \<in> set (missingFields sf (formValues st))) =
      (getProp (formValues st) (sf_id fld) = JUndefined \<or>
       getProp (formValues st) (sf_id fld) = JNull \<or>
       getProp (formValues st) (sf_id fld) = JBool False \<or>
       getProp (formValues st) (sf_id fld) = JNum 0 \<or>
       getProp (formValues st) (sf_id fld) = JStr [])) \<and>
   (getProp (formValues st) (sf_id fld) = JNum 0 \<or>
    getProp (formValues st) (sf_id fld) = JBool False \<longrightarrow>
      (\<exists>st'. onFinish t values st = Done st' \<and> effects st' = effects st \<and>
             form_errors st' (sf_id fld) = Some [t ''required''])) \<and>
   (getProp (formValues st) (sf_id fld) = JArr [] \<longrightarrow>
      sf_id fld \<notin> set (missingFields
         (sf\<lparr>form_fields := [Simple fld]\<rparr>) (formValues st)) \<and>
      ((\<forall>other \<in> set (allSimpleFields sf). requiredVisible other (formValues st) \<longrightarrow>
           truthy (getProp (formValues st) (sf_id other)) \<or>
           getProp (formValues st) (sf_id other) = JArr []) \<longrightarrow>
        onFinish t values st =
          Await () (st\<lparr>submitting := True, effects := effects st @ [PostSubmit values]\<rparr>)))"
proof (intro impI)
  assume a: "selectedForm st = Some sf \<and> fld \<in> set (allSimpleFields sf) \<and>
   requiredVisible fld (formValues st)"
  let ?vals = "formValues st"
  let ?v = "getProp ?vals (sf_id fld)"
  have "(sf_id fld \<in> set (missingFields sf ?vals)) = (\<not> truthy ?v)"
  proof
    assume "sf_id fld \<in> set (missingFields sf ?vals)"
    then have "\<exists>f::SimpleField. sf_id fld = sf_id f \<and> \<not> truthy (getProp ?vals (sf_id f))"
      unfolding missingFields_set by blast
    then show "\<not> truthy ?v" by auto
  next
    assume "\<not> truthy ?v"
    then show "sf_id fld \<in> set (missingFields sf ?vals)"
      unfolding missingFields_set using a by blast
  qed
  then have p1: "(sf_id fld \<in> set (missingFields sf ?vals)) =
      (?v = JUndefined \<or> ?v = JNull \<or> ?v = JBool False \<or> ?v = JNum 0 \<or> ?v = JStr [])"
    by (simp add: falsy_iff)
  have p2: "\<exists>st'. onFinish t values st = Done st' \<and> effects st' = effects st \<and>
             form_errors st' (sf_id fld) = Some [t ''required'']"
    if "?v = JNum 0 \<or> ?v = JBool False"
  proof -
    have f: "\<not> truthy ?v" using that by auto
    then have "\<exists>fld \<in> set (allSimpleFields sf). requiredVisible fld ?vals \<and>
        \<not> truthy (getProp ?vals (sf_id fld))" using a by blast
    with a have ne: "missingFields sf ?vals \<noteq> []" by (simp add: missingFields_empty)
    have mem: "sf_id fld \<in> set (missingFields sf ?vals)"
      using a f by (auto simp: missingFields_set)
    show ?thesis using a ne mem
      by (simp add: onFinish_def Let_def setFieldErrors_apply)
  qed
  have p3: "sf_id fld \<notin> set (missingFields (sf\<lparr>form_fields := [Simple fld]\<rparr>) ?vals)"
    if "?v = JArr []"
    using that by (simp add: missingFields_def allSimpleFields_def)
  have p4: "onFinish t values st =
          Await () (st\<lparr>submitting := True, effects := effects st @ [PostSubmit values]\<rparr>)"
    if "?v = JArr []" and all: "\<forall>other \<in> set (allSimpleFields sf). requiredVisible other ?vals \<longrightarrow>
           truthy (getProp ?vals (sf_id other)) \<or> getProp ?vals (sf_id other) = JArr []"
  proof -
    have "\<forall>other \<in> set (allSimpleFields sf). requiredVisible other ?vals \<longrightarrow>
           truthy (getProp ?vals (sf_id other))"
      using all by auto
    then have "missingFields sf ?vals = []" by (simp add: missingFields_empty)
    then show ?thesis using a by (simp add: onFinish_def Let_def)
  qed
  show "((sf_id fld \<in> set (missingFields sf (formValues st))) =
      (getProp (formValues st) (sf_id fld) = JUndefined \<or>
       getProp (formValues st) (sf_id fld) = JNull \<or>
       getProp (formValues st) (sf_id fld) = JBool False \<or>
       getProp (formValues st) (sf_id fld) = JNum 0 \<or>
       getProp (formValues st) (sf_id fld) = JStr [])) \<and>
   (getProp (formValues st) (sf_id fld) = JNum 0 \<or>
    getProp (formValues st) (sf_id fld) = JBool False \<longrightarrow>
      (\<exists>st'. onFinish t values st = Done st' \<and> effects st' = effects st \<and>
             form_errors st' (sf_id fld) = Some [t ''required''])) \<and>
   (getProp (formValues st) (sf_id fld) = JArr [] \<longrightarrow>
      sf_id fld \<notin> set (missingFields
         (sf\<lparr>form_fields := [Simple fld]\<rparr>) (formValues st)) \<and>
      ((\<forall>other \<in> set (allSimpleFields sf). requiredVisible other (formValues st) \<longrightarrow>
           truthy (getProp (formValues st) (sf_id other)) \<or>
           getProp (formValues st) (sf_id other) = JArr []) \<longrightarrow>
        onFinish t values st =
          Await () (st\<lparr>submitting := True, effects := effects st @ [PostSubmit values]\<rparr>)))"
    using p1 p2 p3 p4 by blast
qed

theorem emptiness_is_falsiness_witness:
  "form_errors (stateOf (onFinish (\<lambda>k. k) [(''name'', JStr ''Ann''), (''age'', JNum 0)]
      (nameAgeState [(''name'', JStr ''Ann''), (''age'', JNum 0)]))) ''age'' = Some [''required''] \<and>
   effects (stateOf (onFinish (\<lambda>k. k) [(''name'', JStr ''Ann''), (''age'', JNum 0)]
      (nameAgeState [(''name'', JStr ''Ann''), (''age'', JNum 0)]))) = [] \<and>
   effects (stateOf (onFinish (\<lambda>k. k) [(''name'', JStr ''Ann''), (''age'', JArr [])]
      (nameAgeState [(''name'', JStr ''Ann''), (''age'', JArr [])]))) =
     [PostSubmit [(''name'', JStr ''Ann''), (''age'', JArr [])]]"
proof -
  let ?zero = "[(''name'', JStr ''Ann''), (''age'', JNum 0)]"
  let ?arr = "[(''name'', JStr ''Ann''), (''age'', JArr [])]"
  have sel: "\<And>v. selectedForm (nameAgeState v) = Some nameAgeForm"
    and fv: "\<And>v. formValues (nameAgeState v) = v"
    and eff: "\<And>v. effects (nameAgeState v) = []"
    by (simp_all add: nameAgeState_def emptyState_def)
  have gp: "getProp ?zero ''age'' = JNum 0" "getProp ?arr ''age'' = JArr []"
    "getProp ?arr ''name'' = JStr ''Ann''" "getProp ?arr ''smoker'' = JUndefined"
    by (simp_all add: getProp_def)
  have mem: "requiredField ''age'' ''number'' \<in> set (allSimpleFields nameAgeForm)"
    by (simp add: nameAgeForm_fields)
  from emptiness_is_falsiness [of "nameAgeState ?zero" nameAgeForm "requiredField ''age'' ''number''"
      "\<lambda>k. k" ?zero]
  have blocked: "\<exists>st'. onFinish (\<lambda>k. k) ?zero (nameAgeState ?zero) = Done st' \<and>
      effects st' = [] \<and> form_errors st' ''age'' = Some [''required'']"
    using mem by (simp add: sel fv eff nameAge_requiredVisible nameAge_ids gp)
  from emptiness_is_falsiness [of "nameAgeState ?arr" nameAgeForm "requiredField ''age'' ''number''"
      "\<lambda>k. k" ?arr]
  have passed: "onFinish (\<lambda>k. k) ?arr (nameAgeState ?arr) =
      Await () ((nameAgeState ?arr)\<lparr>submitting := True,
                 effects := effects (nameAgeState ?arr) @ [PostSubmit ?arr]\<rparr>)"
    using mem by (simp add: sel fv nameAgeForm_fields nameAge_requiredVisible nameAge_ids gp)
  show ?thesis using blocked passed by (auto simp: eff)
qed

end
